theory Spec2Isabelle
  imports Main
begin

section \<open>Python values and strings\<close>

text \<open>
  The service receives JSON and hands the parsed value to its handlers. A parsed JSON
  value is one of Python's \<open>None\<close>, \<open>bool\<close>, \<open>int\<close>, \<open>str\<close>, \<open>list\<close> or \<open>dict\<close>.
  A dict is kept as an association list in which the first binding of a key is the one
  that counts. Strings are lists of 8-bit characters, each standing for one code point
  below 256, so \<open>length\<close> is Python's \<open>len\<close> on such strings. JSON numbers with a
  fraction are left out: no branch of the code tells them from integers other than by
  their truth value.
\<close>

datatype json =
    JNull
  | JBool bool
  | JInt int
  | JStr string
  | JList "json list"
  | JDict "(string \<times> json) list"

datatype py_error =
    AttributeError
  | TypeError
  | KeyError string
  | ValueError
  | IndexError
  | IntegrityError
  | DatabaseError

text \<open>Python's truth value of an object, as \<open>if not data\<close> and \<open>if data[k]\<close> test it.\<close>

fun truthy :: "json \<Rightarrow> bool" where
  "truthy JNull = False"
| "truthy (JBool b) = b"
| "truthy (JInt i) = (i \<noteq> 0)"
| "truthy (JStr s) = (s \<noteq> [])"
| "truthy (JList xs) = (xs \<noteq> [])"
| "truthy (JDict kvs) = (kvs \<noteq> [])"

text \<open>\<open>t in s\<close> on two strings: \<open>t\<close> occurs in \<open>s\<close> as a contiguous run.\<close>

definition is_substring :: "string \<Rightarrow> string \<Rightarrow> bool" where
  "is_substring t s = list_ex (\<lambda>n. take (length t) (drop n s) = t) [0..<Suc (length s)]"


text \<open>\<open>data.get(k)\<close>: only a dict has the method; a missing key gives \<open>None\<close>.\<close>

definition dict_get :: "(string \<times> json) list \<Rightarrow> string \<Rightarrow> json" where
  "dict_get kvs k = (case map_of kvs k of None \<Rightarrow> JNull | Some v \<Rightarrow> v)"

fun py_get :: "json \<Rightarrow> string \<Rightarrow> py_error + json" where
  "py_get (JDict kvs) k = Inr (dict_get kvs k)"
| "py_get _ k = Inl AttributeError"

text \<open>\<open>k in data\<close> for a string \<open>k\<close>: key membership in a dict, element membership in
  a list, substring in a string, and a \<open>TypeError\<close> on anything that is not a container.\<close>

fun py_contains :: "string \<Rightarrow> json \<Rightarrow> py_error + bool" where
  "py_contains k (JDict kvs) = Inr (map_of kvs k \<noteq> None)"
| "py_contains k (JList xs) = Inr (List.member xs (JStr k))"
| "py_contains k (JStr s) = Inr (is_substring k s)"
| "py_contains k _ = Inl TypeError"

text \<open>\<open>data[k]\<close> for a string \<open>k\<close>: a dict looks the key up, every other value refuses
  a string index.\<close>

fun py_getitem :: "json \<Rightarrow> string \<Rightarrow> py_error + json" where
  "py_getitem (JDict kvs) k = (case map_of kvs k of None \<Rightarrow> Inl (KeyError k) | Some v \<Rightarrow> Inr v)"
| "py_getitem _ k = Inl TypeError"

text \<open>The characters \<open>str.strip()\<close> removes: those for which \<open>str.isspace\<close> holds
  (tab to carriage return, the four separators 28 to 31, space, NEL and no-break space).\<close>

definition is_space :: "char \<Rightarrow> bool" where
  "is_space c = (of_char c \<in> set [9, 10, 11, 12, 13, 28, 29, 30, 31, 32, 133, 160 :: nat])"

definition py_strip :: "string \<Rightarrow> string" where
  "py_strip s = rev (dropWhile is_space (rev (dropWhile is_space s)))"

section \<open>The e-mail pattern\<close>

text \<open>
  The validator's pattern
  \<^verbatim>\<open>^[a-zA-Z0-9._%+-]+@[a-zA-Z0-9.-]+\.[a-zA-Z]{2,}$\<close>
  is a sequence of character classes, each with a repetition count. A string matches the
  sequence when it splits into consecutive pieces, one per class, each piece drawn from its
  class and of an allowed length.
\<close>

datatype quantifier = Exactly nat | AtLeast nat

type_synonym regex_item = "char list \<times> quantifier"

fun item_ok :: "regex_item \<Rightarrow> string \<Rightarrow> bool" where
  "item_ok (cls, Exactly n) s = (length s = n \<and> list_all (\<lambda>c. c \<in> set cls) s)"
| "item_ok (cls, AtLeast n) s = (n \<le> length s \<and> list_all (\<lambda>c. c \<in> set cls) s)"

fun match_items :: "regex_item list \<Rightarrow> string \<Rightarrow> bool" where
  "match_items [] s = (s = [])"
| "match_items (it # its) s =
     list_ex (\<lambda>n. if item_ok it (take n s) then match_items its (drop n s) else False)
       [0..<Suc (length s)]"

text \<open>\<open>re.match\<close> with \<open>^\<close> and \<open>$\<close> around the items: \<open>$\<close> matches at the end of the
  string and also just before a newline that ends the string.\<close>

definition re_match :: "regex_item list \<Rightarrow> string \<Rightarrow> bool" where
  "re_match items s =
     (match_items items s \<or>
      (s \<noteq> [] \<and> last s = CHR 0x0A \<and> match_items items (butlast s)))"

definition ascii_letters :: "char list" where
  "ascii_letters = ''abcdefghijklmnopqrstuvwxyzABCDEFGHIJKLMNOPQRSTUVWXYZ''"

definition digits :: "char list" where
  "digits = ''0123456789''"

definition EMAIL_PATTERN :: "regex_item list" where
  "EMAIL_PATTERN =
     [(ascii_letters @ digits @ ''._%+-'', AtLeast 1),
      (''@'', Exactly 1),
      (ascii_letters @ digits @ ''.-'', AtLeast 1),
      (''.'', Exactly 1),
      (ascii_letters, AtLeast 2)]"

section \<open>The validator\<close>

text \<open>The three required-field checks of create mode, in the source's order.\<close>

definition required_errors :: "json \<Rightarrow> py_error + string list" where
  "required_errors data =
     (case py_get data ''name'' of Inl e \<Rightarrow> Inl e | Inr n \<Rightarrow>
     (case py_get data ''email'' of Inl e \<Rightarrow> Inl e | Inr m \<Rightarrow>
     (case py_get data ''password'' of Inl e \<Rightarrow> Inl e | Inr p \<Rightarrow>
        Inr ((if \<not> truthy n then [''Name is required.''] else []) @
             (if \<not> truthy m then [''Email is required.''] else []) @
             (if \<not> truthy p then [''Password is required.''] else [])))))"

text \<open>The guard \<open>k in data and data[k]\<close> in front of every format check.\<close>

definition provided :: "json \<Rightarrow> string \<Rightarrow> py_error + bool" where
  "provided data k =
     (case py_contains k data of
        Inl e \<Rightarrow> Inl e
      | Inr False \<Rightarrow> Inr False
      | Inr True \<Rightarrow> (case py_getitem data k of Inl e \<Rightarrow> Inl e | Inr v \<Rightarrow> Inr (truthy v)))"

definition email_errors :: "json \<Rightarrow> string list" where
  "email_errors v =
     (case v of
        JStr s \<Rightarrow> if \<not> re_match EMAIL_PATTERN s then [''Invalid email format.''] else []
      | _ \<Rightarrow> [''Email must be a string.''])"

definition password_errors :: "json \<Rightarrow> string list" where
  "password_errors v =
     (case v of
        JStr s \<Rightarrow> if length s < 8 then [''Password must be at least 8 characters long.''] else []
      | _ \<Rightarrow> [''Password must be a string.''])"

definition name_errors :: "json \<Rightarrow> string list" where
  "name_errors v =
     (case v of
        JStr s \<Rightarrow> if length (py_strip s) = 0 then [''Name cannot be empty.''] else []
      | _ \<Rightarrow> [''Name must be a string.''])"

text \<open>One format check: skipped unless the field is provided, else the field's errors are
  appended.\<close>

definition check_field ::
  "json \<Rightarrow> string \<Rightarrow> (json \<Rightarrow> string list) \<Rightarrow> string list \<Rightarrow> py_error + string list" where
  "check_field data k field_errors errors =
     (case provided data k of
        Inl e \<Rightarrow> Inl e
      | Inr False \<Rightarrow> Inr errors
      | Inr True \<Rightarrow>
          (case py_getitem data k of Inl e \<Rightarrow> Inl e | Inr v \<Rightarrow> Inr (errors @ field_errors v)))"

definition validate_user_payload :: "json \<Rightarrow> bool \<Rightarrow> py_error + string list" where
  "validate_user_payload data create =
     (if \<not> truthy data then Inr [''No data provided in the request body.'']
      else
        case (if create then required_errors data else Inr []) of
          Inl e \<Rightarrow> Inl e
        | Inr errors \<Rightarrow>
            if errors \<noteq> [] then Inr errors
            else
              (case check_field data ''email'' email_errors errors of
                 Inl e \<Rightarrow> Inl e
               | Inr errors1 \<Rightarrow>
              (case check_field data ''password'' password_errors errors1 of
                 Inl e \<Rightarrow> Inl e
               | Inr errors2 \<Rightarrow> check_field data ''name'' name_errors errors2)))"

section \<open>The store\<close>

text \<open>
  The table \<open>users(id INTEGER PRIMARY KEY AUTOINCREMENT, name, email UNIQUE, password)\<close>.
  A row is the \<open>User\<close> object the repository builds from it. The state of the database is
  the list of rows in rowid order and the counter SQLite keeps for \<open>AUTOINCREMENT\<close>: the
  largest rowid the table has ever held. Rowids are unbounded integers here; SQLite's are
  64-bit, so a table that has reached the largest one, and an identifier beyond 64 bits
  (which sqlite3 refuses with an \<open>OverflowError\<close>), are outside the model, as are faults of
  the storage itself.
\<close>

record user =
  user_id :: int
  name :: string
  email :: string
  password :: string

record db =
  users :: "user list"
  seq :: int

text \<open>\<open>User.to_dict\<close>.\<close>

definition to_dict :: "user \<Rightarrow> (string \<times> json) list" where
  "to_dict u = [(''id'', JInt (user_id u)), (''name'', JStr (name u)), (''email'', JStr (email u))]"

text \<open>The statements the repository sends, with their bound parameters.\<close>

datatype query =
    SelectAll
  | SelectById int
  | SelectByEmail string
  | SelectNameLike string
  | InsertUser string string string

text \<open>SQLite's \<open>LOWER\<close> and the comparison inside \<open>LIKE\<close> fold the 26 ASCII letters only.\<close>

definition ascii_uppercase :: "char list" where
  "ascii_uppercase = ''ABCDEFGHIJKLMNOPQRSTUVWXYZ''"

definition ascii_lowercase :: "char list" where
  "ascii_lowercase = ''abcdefghijklmnopqrstuvwxyz''"

definition sql_lower_char :: "char \<Rightarrow> char" where
  "sql_lower_char c = (case map_of (zip ascii_uppercase ascii_lowercase) c of None \<Rightarrow> c | Some l \<Rightarrow> l)"

definition sql_lower :: "string \<Rightarrow> string" where
  "sql_lower s = map sql_lower_char s"

text \<open>\<open>text LIKE pattern\<close>: \<open>%\<close> in the pattern stands for any run of characters, \<open>_\<close> for
  any one character, and every other character for itself up to ASCII case. The statement
  gives no \<open>ESCAPE\<close> character. Two limits of SQLite are outside the model: it reads a
  pattern and a text only up to their first NUL character, and it refuses a pattern of
  more than 50000 bytes.\<close>

fun sql_like :: "string \<Rightarrow> string \<Rightarrow> bool" where
  "sql_like [] s = (s = [])"
| "sql_like (p # ps) s =
     (if p = CHR ''%'' then list_ex (\<lambda>n. sql_like ps (drop n s)) [0..<Suc (length s)]
      else
        (case s of
           [] \<Rightarrow> False
         | c # cs \<Rightarrow>
             if p = CHR ''_'' \<or> sql_lower_char p = sql_lower_char c then sql_like ps cs else False))"

text \<open>The rowid of the next inserted row: one more than the largest rowid the table holds
  or has ever held.\<close>

definition next_rowid :: "db \<Rightarrow> int" where
  "next_rowid st = fold max (map user_id (users st)) (seq st) + 1"

text \<open>One statement run by SQLite: the rows it yields and the database after it, or the
  constraint it violates. The only constraint a statement of the repository can violate
  with text parameters is the uniqueness of \<open>email\<close>.\<close>

fun sql_execute :: "db \<Rightarrow> query \<Rightarrow> py_error + (user list \<times> db)" where
  "sql_execute st SelectAll = Inr (users st, st)"
| "sql_execute st (SelectById i) = Inr (filter (\<lambda>u. user_id u = i) (users st), st)"
| "sql_execute st (SelectByEmail e) = Inr (filter (\<lambda>u. email u = e) (users st), st)"
| "sql_execute st (SelectNameLike pat) =
     Inr (filter (\<lambda>u. sql_like pat (sql_lower (name u))) (users st), st)"
| "sql_execute st (InsertUser n e p) =
     (if list_ex (\<lambda>u. email u = e) (users st) then Inl IntegrityError
      else
        Inr ([],
             st\<lparr>users := users st @ [\<lparr>user_id = next_rowid st, name = n, email = e, password = p\<rparr>],
                seq := next_rowid st\<rparr>))"

section \<open>The libraries and the process environment\<close>

text \<open>
  The use cases, the repository and the middleware call PyJWT, \<open>werkzeug.security\<close> and
  sqlite3, and read the signing key from the process environment. None of these is code of
  the repository, so each is a parameter: every theorem below holds for every library
  behaviour and every key. \<open>jwt_decode\<close> takes the clock as its last argument, since the
  library reads it when it checks a token; \<open>generate_password_hash\<close> stands for one call of
  the salted hash. \<open>check_password_hash\<close> is given the stored hash and the password as the
  request carried it, a string or not, and yields its verdict or the exception it raises.
  \<open>sqlite_bind\<close> is what sqlite3 makes of a bound parameter that is not a string when the
  statement compares it with the column \<open>email\<close>: the text it equals there (\<open>None\<close> when it
  equals no text), or the exception with which the call of \<open>_execute_query\<close> ends.
  \<open>http_error_str\<close> is the text werkzeug gives an HTTP error of a given status.
\<close>

datatype jwt_result =
    Decoded "(string \<times> json) list"
  | ExpiredSignatureError
  | InvalidTokenError string
  | OtherError

record env =
  JWT_SECRET_KEY :: string
  jwt_encode :: "(string \<times> json) list \<Rightarrow> string \<Rightarrow> string \<Rightarrow> string"
  jwt_decode :: "string \<Rightarrow> string \<Rightarrow> string list \<Rightarrow> nat \<Rightarrow> jwt_result"
  generate_password_hash :: "string \<Rightarrow> string \<Rightarrow> string"
  check_password_hash :: "string \<Rightarrow> json \<Rightarrow> py_error + bool"
  sqlite_bind :: "json \<Rightarrow> py_error + string option"
  http_error_str :: "nat \<Rightarrow> string"

section \<open>The repository\<close>

text \<open>
  \<open>UserRepository._execute_query\<close>: run the statement and commit, or roll back to the last
  commit and raise again. Every call commits, so the last commit is the state the call
  started from. The result is the list of rows of the cursor; \<open>fetchone\<close> and \<open>fetchall\<close>
  read it.
\<close>

definition execute_query :: "db \<Rightarrow> query \<Rightarrow> (py_error + user list) \<times> db" where
  "execute_query st q =
     (case sql_execute st q of
        Inr (rows, st') \<Rightarrow> (Inr rows, st')
      | Inl e \<Rightarrow> (Inl e, st))"

definition fetchone :: "user list \<Rightarrow> user option" where
  "fetchone rows = (case rows of [] \<Rightarrow> None | r # _ \<Rightarrow> Some r)"

definition repo_get_all_users :: "db \<Rightarrow> (py_error + user list) \<times> db" where
  "repo_get_all_users st = execute_query st SelectAll"

definition get_user_by_id :: "db \<Rightarrow> int \<Rightarrow> (py_error + user option) \<times> db" where
  "get_user_by_id st i =
     (case execute_query st (SelectById i) of
        (Inl e, st') \<Rightarrow> (Inl e, st')
      | (Inr rows, st') \<Rightarrow> (Inr (fetchone rows), st'))"

text \<open>The text a bound parameter stands for in a comparison with the column \<open>email\<close>: a
  string stands for itself, anything else is for sqlite3 to decide.\<close>

definition bound_text :: "env \<Rightarrow> json \<Rightarrow> py_error + string option" where
  "bound_text ev v = (case v of JStr s \<Rightarrow> Inr (Some s) | _ \<Rightarrow> sqlite_bind ev v)"

definition get_user_by_email :: "env \<Rightarrow> db \<Rightarrow> json \<Rightarrow> (py_error + user option) \<times> db" where
  "get_user_by_email ev st v =
     (case bound_text ev v of
        Inl err \<Rightarrow> (Inl err, st)
      | Inr None \<Rightarrow> (Inr None, st)
      | Inr (Some e) \<Rightarrow>
          (case execute_query st (SelectByEmail e) of
             (Inl err, st') \<Rightarrow> (Inl err, st')
           | (Inr rows, st') \<Rightarrow> (Inr (fetchone rows), st')))"


text \<open>\<open>str.lower()\<close> on code points below 256: the ASCII capitals and the Latin-1 capitals
  (192 to 222 without the multiplication sign 215) move up by 32.\<close>

definition py_lower_char :: "char \<Rightarrow> char" where
  "py_lower_char c =
     (let n = of_char c :: nat in
      if (65 \<le> n \<and> n \<le> 90) \<or> (192 \<le> n \<and> n \<le> 214) \<or> (216 \<le> n \<and> n \<le> 222)
      then char_of (n + 32) else c)"

definition py_lower :: "string \<Rightarrow> string" where
  "py_lower s = map py_lower_char s"

definition search_users_by_name :: "db \<Rightarrow> string \<Rightarrow> (py_error + user list) \<times> db" where
  "search_users_by_name st nm = execute_query st (SelectNameLike (''%'' @ py_lower nm @ ''%''))"

section \<open>The use cases\<close>

definition get_user :: "db \<Rightarrow> int \<Rightarrow> (py_error + user option) \<times> db" where
  "get_user st i = get_user_by_id st i"


definition search_user :: "db \<Rightarrow> string \<Rightarrow> (py_error + user list) \<times> db" where
  "search_user st nm = search_users_by_name st nm"

text \<open>The payload \<open>login_user\<close> hands to \<open>jwt.encode\<close>.\<close>

definition token_payload :: "user \<Rightarrow> (string \<times> json) list" where
  "token_payload u = [(''id'', JInt (user_id u)), (''email'', JStr (email u))]"

text \<open>\<open>login_user\<close>. In \<open>user and check_password_hash(user.password, password)\<close> the hash
  check runs only when a user was found; an exception it raises leaves the use case.\<close>

definition login_user :: "env \<Rightarrow> db \<Rightarrow> json \<Rightarrow> json \<Rightarrow> (py_error + string option) \<times> db" where
  "login_user ev st em_v pw_v =
     (case get_user_by_email ev st em_v of
        (Inl e, st') \<Rightarrow> (Inl e, st')
      | (Inr None, st') \<Rightarrow> (Inr None, st')
      | (Inr (Some u), st') \<Rightarrow>
          (case check_password_hash ev (password u) pw_v of
             Inl e \<Rightarrow> (Inl e, st')
           | Inr True \<Rightarrow>
               (Inr (Some (jwt_encode ev (token_payload u) (JWT_SECRET_KEY ev) ''HS256'')), st')
           | Inr False \<Rightarrow> (Inr None, st')))"

section \<open>The authentication middleware\<close>

text \<open>\<open>s.split(c)\<close> with a one-character separator, and \<open>xs[i]\<close> for an index that is not
  negative.\<close>

fun split_on :: "char \<Rightarrow> string \<Rightarrow> string list" where
  "split_on c [] = [[]]"
| "split_on c (x # xs) =
     (if x = c then [] # split_on c xs
      else (case split_on c xs of [] \<Rightarrow> [[x]] | w # ws \<Rightarrow> (x # w) # ws))"

definition py_index :: "'a list \<Rightarrow> nat \<Rightarrow> py_error + 'a" where
  "py_index xs i = (if i < length xs then Inr (xs ! i) else Inl IndexError)"

definition startswith :: "string \<Rightarrow> string \<Rightarrow> bool" where
  "startswith s p = (take (length p) s = p)"

type_synonym response = "json \<times> nat"

text \<open>The first \<open>try\<close> block of \<open>token_required\<close>: the token read from the value of the
  \<open>Authorization\<close> header (\<open>None\<close> when the request has no such header), or the
  \<open>IndexError\<close> the block catches.\<close>

definition bearer_token :: "string option \<Rightarrow> py_error + string option" where
  "bearer_token hdr =
     (case hdr of
        None \<Rightarrow> Inr None
      | Some auth_header \<Rightarrow>
          if startswith auth_header ''Bearer ''
          then (case py_index (split_on CHR '' '' auth_header) 1 of
                  Inl e \<Rightarrow> Inl e
                | Inr t \<Rightarrow> Inr (Some t))
          else Inr None)"

definition malformed_header :: response where
  "malformed_header = (JDict [(''error'', JStr ''Malformed Authorization header'')], 401)"

definition token_missing :: response where
  "token_missing = (JDict [(''error'', JStr ''Authentication Token is missing!'')], 401)"

definition token_expired :: response where
  "token_expired = (JDict [(''error'', JStr ''Token has expired'')], 401)"

definition token_invalid :: "string \<Rightarrow> response" where
  "token_invalid msg = (JDict [(''error'', JStr (''Invalid Token: '' @ msg))], 401)"

definition token_failed :: response where
  "token_failed =
     (JDict [(''error'', JStr ''Token processing failed''),
             (''details'', JStr ''An unexpected error occurred.'')], 401)"

text \<open>The second \<open>try\<close> block: the \<open>current_user\<close> built from the decoded payload, or the
  response of the \<open>except\<close> clause that catches the failure. A missing key is a \<open>KeyError\<close>,
  which only the last clause catches.\<close>

definition current_user_of :: "jwt_result \<Rightarrow> response + (string \<times> json) list" where
  "current_user_of r =
     (case r of
        ExpiredSignatureError \<Rightarrow> Inl token_expired
      | InvalidTokenError msg \<Rightarrow> Inl (token_invalid msg)
      | OtherError \<Rightarrow> Inl token_failed
      | Decoded data \<Rightarrow>
          (case py_getitem (JDict data) ''id'' of
             Inl e \<Rightarrow> Inl token_failed
           | Inr i \<Rightarrow>
               (case py_getitem (JDict data) ''email'' of
                  Inl e \<Rightarrow> Inl token_failed
                | Inr m \<Rightarrow> Inr [(''id'', i), (''email'', m)])))"

text \<open>\<open>token_required\<close>: the response that rejects the request, or the \<open>current_user\<close>
  with which the wrapped handler is called.\<close>

definition token_required :: "env \<Rightarrow> nat \<Rightarrow> string option \<Rightarrow> response + (string \<times> json) list" where
  "token_required ev now hdr =
     (case bearer_token hdr of
        Inl e \<Rightarrow> Inl malformed_header
      | Inr None \<Rightarrow> Inl token_missing
      | Inr (Some token) \<Rightarrow>
          if token = [] then Inl token_missing
          else current_user_of (jwt_decode ev token (JWT_SECRET_KEY ev) [''HS256''] now))"

section \<open>The controller\<close>

text \<open>
  A view returns the response and the database after it, or the exception that leaves the
  view uncaught. Views behind \<open>token_required\<close> take the clock and the value of the
  \<open>Authorization\<close> header; views that read a body take the value of \<open>request.get_json()\<close>.
\<close>

definition internal_error :: "string \<Rightarrow> response" where
  "internal_error what =
     (JDict [(''error'', JStr what), (''details'', JStr ''An internal server error occurred.'')], 500)"

text \<open>\<open>get_user\<close>. The router hands the view an integer, on which \<open>int(user_id)\<close> is the
  identity; its \<open>except ValueError\<close> clause has nothing to catch.\<close>

definition get_user_view ::
  "env \<Rightarrow> db \<Rightarrow> nat \<Rightarrow> string option \<Rightarrow> int \<Rightarrow> (py_error + response) \<times> db" where
  "get_user_view ev st now hdr uid =
     (case token_required ev now hdr of
        Inl rejected \<Rightarrow> (Inr rejected, st)
      | Inr current_user \<Rightarrow>
          (case get_user st uid of
             (Inl e, st') \<Rightarrow> (Inr (internal_error ''Failed to retrieve user''), st')
           | (Inr None, st') \<Rightarrow> (Inr (JDict [(''error'', JStr ''User not found'')], 404), st')
           | (Inr (Some u), st') \<Rightarrow> (Inr (JDict (to_dict u), 200), st')))"



definition search_term_required :: response where
  "search_term_required =
     (JDict [(''error'',
              JStr (''Search term '' @ [CHR 0x22] @ ''name'' @ [CHR 0x22] @
                    '' query parameter is required''))], 400)"

definition search_users_view ::
  "env \<Rightarrow> db \<Rightarrow> nat \<Rightarrow> string option \<Rightarrow> string option \<Rightarrow> (py_error + response) \<times> db" where
  "search_users_view ev st now hdr name_arg =
     (case token_required ev now hdr of
        Inl rejected \<Rightarrow> (Inr rejected, st)
      | Inr current_user \<Rightarrow>
          (case name_arg of
             None \<Rightarrow> (Inr search_term_required, st)
           | Some nm \<Rightarrow>
               if nm = [] then (Inr search_term_required, st)
               else
                 (case search_user st nm of
                    (Inl e, st') \<Rightarrow> (Inr (internal_error ''Failed to search users''), st')
                  | (Inr found, st') \<Rightarrow> (Inr (JList (map (\<lambda>u. JDict (to_dict u)) found), 200), st'))))"

definition invalid_credentials :: response where
  "invalid_credentials = (JDict [(''error'', JStr ''Invalid credentials'')], 401)"

definition login_failed :: response where
  "login_failed =
     (JDict [(''error'', JStr ''Login failed''),
             (''details'', JStr ''An internal server error occurred.'')], 500)"

text \<open>\<open>login_user\<close>. The log line reads \<open>data.get('email')\<close> before the body is tested, so
  a body that is not a dict leaves the view with an \<open>AttributeError\<close>. The two credentials
  are tested for truth only, and go to the use case as the body carried them.\<close>

definition login_user_view :: "env \<Rightarrow> db \<Rightarrow> json \<Rightarrow> (py_error + response) \<times> db" where
  "login_user_view ev st data =
     (case py_get data ''email'' of
        Inl e \<Rightarrow> (Inl e, st)
      | Inr em \<Rightarrow>
          if \<not> truthy data then (Inr (JDict [(''error'', JStr ''No login data provided'')], 400), st)
          else
            (case py_get data ''password'' of
               Inl e \<Rightarrow> (Inl e, st)
             | Inr pw \<Rightarrow>
                 if \<not> truthy em \<or> \<not> truthy pw
                 then (Inr (JDict [(''error'', JStr ''Email and password are required'')], 400), st)
                 else
                   (case login_user ev st em pw of
                      (Inl e, st') \<Rightarrow> (Inr login_failed, st')
                    | (Inr None, st') \<Rightarrow> (Inr invalid_credentials, st')
                    | (Inr (Some token), st') \<Rightarrow>
                        if token \<noteq> [] then (Inr (JDict [(''token'', JStr token)], 200), st')
                        else (Inr invalid_credentials, st'))))"

section \<open>The routes and the error handlers\<close>

text \<open>
  The rules of the blueprint and the health check. The path \<open>/swagger\<close> and the paths
  under \<open>/swagger/\<close> and \<open>/static/\<close> are left to the rules of the Swagger UI blueprint and of
  Flask's static files: \<open>External\<close> stands for whatever those rules answer, a 404 of their
  own included. The converter \<open>int\<close> of a rule accepts a path segment of one or more decimal
  digits and hands its value on. Among the code points below 256, which are all a string
  holds here, the decimal digits are the ten ASCII ones; werkzeug's pattern \<open>\d+\<close> also
  takes the decimal digits of other scripts, which lie beyond. Redirects that werkzeug
  issues for doubled slashes are not modelled: a path is matched as it stands.
\<close>

datatype rule = UsersRule | UserRule int | SearchRule | LoginRule | HealthRule | ExternalRule

datatype endpoint =
    GetAllUsers
  | GetUser int
  | CreateUser
  | UpdateUser int
  | DeleteUser int
  | SearchUsers
  | LoginUser
  | HealthCheck
  | External

datatype routing = Route endpoint | Options | MethodNotAllowed | NotFound

definition digit_value :: "char \<Rightarrow> nat" where
  "digit_value c = of_char c - 48"

definition int_converter :: "string \<Rightarrow> int option" where
  "int_converter seg =
     (if seg \<noteq> [] \<and> list_all (\<lambda>c. c \<in> set digits) seg
      then Some (int (fold (\<lambda>c n. 10 * n + digit_value c) seg 0))
      else None)"

definition match_rule :: "string \<Rightarrow> rule option" where
  "match_rule path =
     (if path = ''/'' then Some HealthRule
      else if path = ''/api/users'' then Some UsersRule
      else if path = ''/api/search'' then Some SearchRule
      else if path = ''/api/login'' then Some LoginRule
      else if startswith path ''/api/user/'' then map_option UserRule (int_converter (drop 10 path))
      else if path = ''/swagger'' \<or> startswith path ''/swagger/'' \<or> startswith path ''/static/''
        then Some ExternalRule
      else None)"

text \<open>The view of a rule for a method. Flask answers \<open>HEAD\<close> with the view of \<open>GET\<close> and
  \<open>OPTIONS\<close> by itself.\<close>

definition view_of :: "rule \<Rightarrow> string \<Rightarrow> routing" where
  "view_of r m =
     (if r = ExternalRule then Route External
      else if m = ''OPTIONS'' then Options
      else
        (case r of
           UsersRule \<Rightarrow>
             if m = ''GET'' \<or> m = ''HEAD'' then Route GetAllUsers
             else if m = ''POST'' then Route CreateUser
             else MethodNotAllowed
         | UserRule i \<Rightarrow>
             if m = ''GET'' \<or> m = ''HEAD'' then Route (GetUser i)
             else if m = ''PUT'' then Route (UpdateUser i)
             else if m = ''DELETE'' then Route (DeleteUser i)
             else MethodNotAllowed
         | SearchRule \<Rightarrow> if m = ''GET'' \<or> m = ''HEAD'' then Route SearchUsers else MethodNotAllowed
         | LoginRule \<Rightarrow> if m = ''POST'' then Route LoginUser else MethodNotAllowed
         | HealthRule \<Rightarrow> if m = ''GET'' \<or> m = ''HEAD'' then Route HealthCheck else MethodNotAllowed
         | ExternalRule \<Rightarrow> Route External))"

definition route :: "string \<Rightarrow> string \<Rightarrow> routing" where
  "route m path = (case match_rule path of None \<Rightarrow> NotFound | Some r \<Rightarrow> view_of r m)"

text \<open>The handlers of \<open>register_error_handlers\<close> that routing and views can reach.\<close>

definition not_found :: "string \<Rightarrow> response" where
  "not_found error = (JDict [(''error'', JStr ''Resource Not Found''), (''message'', JStr error)], 404)"

definition method_not_allowed :: "string \<Rightarrow> response" where
  "method_not_allowed error =
     (JDict [(''error'', JStr ''Method Not Allowed''), (''message'', JStr error)], 405)"

definition handle_unexpected_error :: response where
  "handle_unexpected_error =
     (JDict [(''error'', JStr ''An unexpected error occurred''),
             (''message'', JStr ''Please try again later.'')], 500)"

text \<open>One request through Flask: the router picks a view or fails, and only a picked view
  is run. \<open>views\<close> runs the view of an endpoint on the request at hand; \<open>options\<close> is
  Flask's own answer to \<open>OPTIONS\<close>.\<close>

definition dispatch_request ::
  "env \<Rightarrow> db \<Rightarrow> (endpoint \<Rightarrow> (py_error + response) \<times> db) \<Rightarrow> response \<Rightarrow> routing
     \<Rightarrow> response \<times> db" where
  "dispatch_request ev st views options r =
     (case r of
        NotFound \<Rightarrow> (not_found (http_error_str ev 404), st)
      | MethodNotAllowed \<Rightarrow> (method_not_allowed (http_error_str ev 405), st)
      | Options \<Rightarrow> (options, st)
      | Route ep \<Rightarrow>
          (case views ep of
             (Inr resp, st') \<Rightarrow> (resp, st')
           | (Inl e, st') \<Rightarrow> (handle_unexpected_error, st')))"

section \<open>The rules of the specification\<close>




text \<open>The messages of the three required-field checks for the fields a payload lacks.\<close>

definition missing_field_errors :: "(string \<times> json) list \<Rightarrow> string list" where
  "missing_field_errors kvs =
     (if \<not> truthy (dict_get kvs ''name'') then [''Name is required.''] else []) @
     (if \<not> truthy (dict_get kvs ''email'') then [''Email is required.''] else []) @
     (if \<not> truthy (dict_get kvs ''password'') then [''Password is required.''] else [])"

text \<open>A name holds a text as a substring when case is set aside.\<close>

definition contains_ignoring_case :: "string \<Rightarrow> string \<Rightarrow> bool" where
  "contains_ignoring_case nm t = is_substring (py_lower t) (py_lower nm)"

text \<open>A string of ASCII characters only.\<close>

definition is_ascii :: "string \<Rightarrow> bool" where
  "is_ascii s = list_all (\<lambda>c. of_char c < (128::nat)) s"

section \<open>Sample data\<close>

text \<open>The three users \<open>init_db.py\<close> inserts, with stand-ins for their password hashes, and
  one instance of the libraries: a hash that keeps the password readable and whose check
  raises on a password that is not a string, and a JWT library that knows two tokens.\<close>

definition john :: user where
  "john = \<lparr>user_id = 1, name = ''John Doe'', email = ''john@example.com'',
           password = ''pbkdf2:sha256$password123''\<rparr>"

definition jane :: user where
  "jane = \<lparr>user_id = 2, name = ''Jane Smith'', email = ''jane@example.com'',
           password = ''pbkdf2:sha256$secret456''\<rparr>"

definition bob :: user where
  "bob = \<lparr>user_id = 3, name = ''Bob Johnson'', email = ''bob@example.com'',
          password = ''pbkdf2:sha256$qwerty789''\<rparr>"

definition sample_db :: db where
  "sample_db = \<lparr>users = [john, jane, bob], seq = 3\<rparr>"

definition sample_decode :: "string \<Rightarrow> string \<Rightarrow> string list \<Rightarrow> nat \<Rightarrow> jwt_result" where
  "sample_decode token key algs now =
     (if token = ''john-token'' then Decoded (token_payload john)
      else if token = ''no-id-token'' then Decoded [(''email'', JStr ''john@example.com'')]
      else InvalidTokenError ''Not enough segments'')"

definition sample_check :: "string \<Rightarrow> json \<Rightarrow> py_error + bool" where
  "sample_check h v =
     (case v of JStr pw \<Rightarrow> Inr (h = ''pbkdf2:sha256$'' @ pw) | _ \<Rightarrow> Inl AttributeError)"

definition sample_env :: env where
  "sample_env =
     \<lparr>JWT_SECRET_KEY = ''default-jwt-secret-key-change-me'',
      jwt_encode = (\<lambda>payload key alg. ''john-token''),
      jwt_decode = sample_decode,
      generate_password_hash = (\<lambda>pw method. method @ ''$'' @ pw),
      check_password_hash = sample_check,
      sqlite_bind = (\<lambda>v. Inl DatabaseError),
      http_error_str = (\<lambda>code. ''404 Not Found'')\<rparr>"



definition unknown_login :: json where
  "unknown_login =
     JDict [(''email'', JStr ''nobody@example.com''), (''password'', JStr ''password123'')]"

definition wrong_login :: json where
  "wrong_login = JDict [(''email'', JStr ''john@example.com''), (''password'', JStr ''letmein'')]"

definition unknown_numeric_login :: json where
  "unknown_numeric_login =
     JDict [(''email'', JStr ''nobody@example.com''), (''password'', JInt 12345678)]"

definition known_numeric_login :: json where
  "known_numeric_login =
     JDict [(''email'', JStr ''john@example.com''), (''password'', JInt 12345678)]"

section \<open>Properties of the validator\<close>

text \<open>On an object the validator never raises, and its result has a closed form.\<close>

lemma provided_dict: "provided (JDict kvs) k = Inr (truthy (dict_get kvs k))"
  by (simp add: provided_def dict_get_def split: option.splits bool.splits)

lemma check_field_dict:
  "check_field (JDict kvs) k f errs =
     Inr (if truthy (dict_get kvs k) then errs @ f (dict_get kvs k) else errs)"
  by (auto simp: check_field_def provided_dict dict_get_def split: option.splits)

lemma required_errors_dict: "required_errors (JDict kvs) = Inr (missing_field_errors kvs)"
  by (simp add: required_errors_def missing_field_errors_def)

lemma validate_dict:
  "validate_user_payload (JDict kvs) create =
     Inr (if kvs = [] then [''No data provided in the request body.'']
          else if create \<and> missing_field_errors kvs \<noteq> [] then missing_field_errors kvs
          else (if truthy (dict_get kvs ''email'') then email_errors (dict_get kvs ''email'') else []) @
               (if truthy (dict_get kvs ''password'') then password_errors (dict_get kvs ''password'') else []) @
               (if truthy (dict_get kvs ''name'') then name_errors (dict_get kvs ''name'') else []))"
  by (simp add: validate_user_payload_def required_errors_dict check_field_dict)

lemma missing_field_errors_Nil:
  "missing_field_errors kvs = [] \<longleftrightarrow>
     truthy (dict_get kvs ''name'') \<and> truthy (dict_get kvs ''email'') \<and> truthy (dict_get kvs ''password'')"
  by (simp add: missing_field_errors_def)





lemma validate_falsy:
  "\<not> truthy data \<Longrightarrow> validate_user_payload data c = Inr [''No data provided in the request body.'']"
  by (simp add: validate_user_payload_def)




text \<open>
  Claim C7, as amended. In create mode, for a payload that is an object with at least one
  entry: if any of name, e-mail or password is absent (missing, \<open>null\<close>, or another value
  Python takes for false, such as the empty string), the validator returns exactly the
  required-field messages of the absent fields, in the order name, e-mail, password, and
  nothing else: no format check has run.
\<close>

theorem validate_create_missing_fields:
  assumes "kvs \<noteq> []"
    and "\<not> truthy (dict_get kvs ''name'') \<or> \<not> truthy (dict_get kvs ''email'') \<or>
         \<not> truthy (dict_get kvs ''password'')"
  shows "validate_user_payload (JDict kvs) True = Inr (missing_field_errors kvs) \<and>
         missing_field_errors kvs \<noteq> [] \<and>
         set (missing_field_errors kvs) \<subseteq>
           {''Name is required.'', ''Email is required.'', ''Password is required.''}"
proof -
  from assms(2) have ne: "missing_field_errors kvs \<noteq> []"
    by (simp add: missing_field_errors_Nil)
  with assms(1) have "validate_user_payload (JDict kvs) True = Inr (missing_field_errors kvs)"
    by (simp add: validate_dict)
  moreover have "set (missing_field_errors kvs) \<subseteq>
      {''Name is required.'', ''Email is required.'', ''Password is required.''}"
    by (auto simp: missing_field_errors_def split: if_splits)
  ultimately show ?thesis using ne by blast
qed

theorem validate_create_missing_fields_witness:
  "validate_user_payload (JDict [(''name'', JStr ''Ann''), (''email'', JNull), (''password'', JStr ''x'')]) True =
     Inr [''Email is required.'']"
  using validate_create_missing_fields
    [of "[(''name'', JStr ''Ann''), (''email'', JNull), (''password'', JStr ''x'')]"]
  by (simp add: missing_field_errors_def dict_get_def)

text \<open>The empty object lacks all three fields, yet the validator answers with the single
  message of its first guard and none of the three required-field messages.\<close>

theorem validate_create_empty_payload_counterexample:
  "validate_user_payload (JDict []) True = Inr [''No data provided in the request body.''] \<and>
   missing_field_errors [] = [''Name is required.'', ''Email is required.'', ''Password is required.'']"
  by (simp add: validate_falsy missing_field_errors_def dict_get_def)





section \<open>Properties of the store\<close>

lemma fetchone_filter: "fetchone (filter P xs) = find P xs"
  by (induction xs) (simp_all add: fetchone_def)


lemma get_user_by_email_eq:
  "get_user_by_email ev st (JStr em) = (Inr (find (\<lambda>u. email u = em) (users st)), st)"
  by (simp add: get_user_by_email_def bound_text_def execute_query_def fetchone_filter)
















section \<open>Properties of login\<close>

text \<open>With a string for the e-mail \<open>login_user\<close> is a lookup by e-mail followed, when a user
  is found, by the hash check; the view maps its outcomes to 500, 401 and 200.\<close>

lemma login_user_str:
  "login_user ev st (JStr em) pw_v =
     (case find (\<lambda>u. email u = em) (users st) of
        None \<Rightarrow> (Inr None, st)
      | Some u \<Rightarrow>
          (case check_password_hash ev (password u) pw_v of
             Inl e \<Rightarrow> (Inl e, st)
           | Inr True \<Rightarrow>
               (Inr (Some (jwt_encode ev (token_payload u) (JWT_SECRET_KEY ev) ''HS256'')), st)
           | Inr False \<Rightarrow> (Inr None, st)))"
  by (simp add: login_user_def get_user_by_email_eq split: option.splits)

lemma find_email_None: "em \<notin> email ` set (users st) \<Longrightarrow> find (\<lambda>u. email u = em) (users st) = None"
  by (auto simp: find_None_iff)

lemma login_user_view_truthy:
  assumes "py_get data ''email'' = Inr em_v" "py_get data ''password'' = Inr pw_v"
    and "truthy em_v" "truthy pw_v"
  shows "login_user_view ev st data =
     (case login_user ev st em_v pw_v of
        (Inl e, st') \<Rightarrow> (Inr login_failed, st')
      | (Inr None, st') \<Rightarrow> (Inr invalid_credentials, st')
      | (Inr (Some token), st') \<Rightarrow>
          if token \<noteq> [] then (Inr (JDict [(''token'', JStr token)], 200), st')
          else (Inr invalid_credentials, st'))"
proof -
  from assms(1) obtain kvs where d: "data = JDict kvs"
    by (cases data) simp_all
  with assms(1,3) have "kvs \<noteq> []"
    by (auto simp: dict_get_def)
  with assms d show ?thesis
    by (simp add: login_user_view_def)
qed

text \<open>
  Claim C1, on the code. For every stored user and every password the hash check accepts,
  \<open>login_user\<close> returns the encoding, under the configured key and \<open>HS256\<close>, of a payload
  whose keys are exactly \<open>id\<close> and \<open>email\<close>. The payload has no \<open>exp\<close> entry and
  \<open>login_user\<close> reads no clock: the token carries no expiry bound.
\<close>

theorem login_token_carries_no_expiry:
  assumes "find (\<lambda>u. email u = em) (users st) = Some u"
    and "check_password_hash ev (password u) pw_v = Inr True"
  shows "login_user ev st (JStr em) pw_v =
           (Inr (Some (jwt_encode ev [(''id'', JInt (user_id u)), (''email'', JStr em)]
                         (JWT_SECRET_KEY ev) ''HS256'')), st) \<and>
         map fst (token_payload u) = [''id'', ''email''] \<and>
         map_of (token_payload u) ''exp'' = None"
proof -
  from assms(1) have "email u = em"
    by (auto simp: find_Some_iff)
  with assms show ?thesis
    by (simp add: login_user_str token_payload_def)
qed

theorem login_token_carries_no_expiry_witness:
  "find (\<lambda>u. email u = ''john@example.com'') (users sample_db) = Some john \<and>
   check_password_hash sample_env (password john) (JStr ''password123'') = Inr True \<and>
   login_user sample_env sample_db (JStr ''john@example.com'') (JStr ''password123'') =
     (Inr (Some ''john-token''), sample_db) \<and>
   map_of (token_payload john) ''exp'' = None"
proof -
  have f: "find (\<lambda>u. email u = ''john@example.com'') (users sample_db) = Some john"
    by (simp add: sample_db_def john_def)
  have c: "check_password_hash sample_env (password john) (JStr ''password123'') = Inr True"
    by (simp add: sample_env_def sample_check_def john_def)
  have "jwt_encode sample_env p k a = ''john-token''" for p k a
    by (simp add: sample_env_def)
  then show ?thesis
    using login_token_carries_no_expiry [OF f c] f c by simp
qed

text \<open>When the hash check refuses a password without raising, as it does for a string
  against a stored hash, the unknown e-mail and the refused password get the same answer:
  \<open>login_user\<close> returns \<open>None\<close>, the view answers \<open>Invalid credentials\<close> with status 401, and
  the store is as before.\<close>

lemma login_refusals_same_response:
  assumes absent: "em1 \<notin> email ` set (users st1)"
    and found: "find (\<lambda>u. email u = em2) (users st2) = Some u"
    and wrong: "check_password_hash ev (password u) pw2 = Inr False"
    and d1: "py_get data1 ''email'' = Inr (JStr em1)" "py_get data1 ''password'' = Inr pw1"
      "truthy (JStr em1)" "truthy pw1"
    and d2: "py_get data2 ''email'' = Inr (JStr em2)" "py_get data2 ''password'' = Inr pw2"
      "truthy (JStr em2)" "truthy pw2"
  shows "login_user ev st1 (JStr em1) pw1 = (Inr None, st1) \<and>
         login_user ev st2 (JStr em2) pw2 = (Inr None, st2) \<and>
         login_user_view ev st1 data1 = (Inr invalid_credentials, st1) \<and>
         login_user_view ev st2 data2 = (Inr invalid_credentials, st2) \<and>
         snd invalid_credentials = 401"
proof -
  have l1: "login_user ev st1 (JStr em1) pw1 = (Inr None, st1)"
    using absent by (simp add: login_user_str find_email_None)
  have l2: "login_user ev st2 (JStr em2) pw2 = (Inr None, st2)"
    using found wrong by (simp add: login_user_str)
  have v1: "login_user_view ev st1 data1 = (Inr invalid_credentials, st1)"
    using l1 by (simp add: login_user_view_truthy [OF d1])
  have v2: "login_user_view ev st2 data2 = (Inr invalid_credentials, st2)"
    using l2 by (simp add: login_user_view_truthy [OF d2])
  show ?thesis
    using l1 l2 v1 v2 by (simp add: invalid_credentials_def)
qed

lemma login_refusals_same_response_example:
  "login_user_view sample_env sample_db unknown_login = (Inr invalid_credentials, sample_db) \<and>
   login_user_view sample_env sample_db wrong_login = (Inr invalid_credentials, sample_db)"
proof -
  have a: "''nobody@example.com'' \<notin> email ` set (users sample_db)"
    by (simp add: sample_db_def john_def jane_def bob_def)
  have f: "find (\<lambda>u. email u = ''john@example.com'') (users sample_db) = Some john"
    by (simp add: sample_db_def john_def)
  have w: "check_password_hash sample_env (password john) (JStr ''letmein'') = Inr False"
    by (simp add: sample_env_def sample_check_def john_def)
  have d1: "py_get unknown_login ''email'' = Inr (JStr ''nobody@example.com'')"
    "py_get unknown_login ''password'' = Inr (JStr ''password123'')"
    "truthy (JStr ''nobody@example.com'')" "truthy (JStr ''password123'')"
    by (simp_all add: unknown_login_def dict_get_def)
  have d2: "py_get wrong_login ''email'' = Inr (JStr ''john@example.com'')"
    "py_get wrong_login ''password'' = Inr (JStr ''letmein'')"
    "truthy (JStr ''john@example.com'')" "truthy (JStr ''letmein'')"
    by (simp_all add: wrong_login_def dict_get_def)
  show ?thesis
    using login_refusals_same_response [OF a f w d1 d2] by simp
qed

text \<open>
  Claim C2, on the code. The view tests the password for truth only. Take a password on
  which the hash check raises, as werkzeug's does on a JSON number, and two login requests
  that carry it: one with an e-mail no stored user has, one with the e-mail of a stored
  user. For the first the hash check never runs and the view answers
  \<open>Invalid credentials\<close> with status 401; for the second the exception reaches the view's
  last \<open>except\<close> clause and the answer is \<open>Login failed\<close> with status 500. The two answers
  differ, so the answer tells whether the e-mail is stored.
\<close>

theorem login_reveals_known_email:
  assumes absent: "em1 \<notin> email ` set (users st1)"
    and found: "find (\<lambda>u. email u = em2) (users st2) = Some u"
    and raises: "check_password_hash ev (password u) pw_v = Inl e"
    and d1: "py_get data1 ''email'' = Inr (JStr em1)" "py_get data1 ''password'' = Inr pw_v"
      "truthy (JStr em1)" "truthy pw_v"
    and d2: "py_get data2 ''email'' = Inr (JStr em2)" "py_get data2 ''password'' = Inr pw_v"
      "truthy (JStr em2)" "truthy pw_v"
  shows "login_user ev st1 (JStr em1) pw_v = (Inr None, st1) \<and>
         login_user ev st2 (JStr em2) pw_v = (Inl e, st2) \<and>
         login_user_view ev st1 data1 = (Inr invalid_credentials, st1) \<and>
         login_user_view ev st2 data2 = (Inr login_failed, st2) \<and>
         snd invalid_credentials = 401 \<and> snd login_failed = 500 \<and>
         fst (login_user_view ev st1 data1) \<noteq> fst (login_user_view ev st2 data2)"
proof -
  have l1: "login_user ev st1 (JStr em1) pw_v = (Inr None, st1)"
    using absent by (simp add: login_user_str find_email_None)
  have l2: "login_user ev st2 (JStr em2) pw_v = (Inl e, st2)"
    using found raises by (simp add: login_user_str)
  have v1: "login_user_view ev st1 data1 = (Inr invalid_credentials, st1)"
    using l1 by (simp add: login_user_view_truthy [OF d1])
  have v2: "login_user_view ev st2 data2 = (Inr login_failed, st2)"
    using l2 by (simp add: login_user_view_truthy [OF d2])
  show ?thesis
    using l1 l2 v1 v2 by (simp add: invalid_credentials_def login_failed_def)
qed

theorem login_reveals_known_email_witness:
  "''nobody@example.com'' \<notin> email ` set (users sample_db) \<and>
   find (\<lambda>u. email u = ''john@example.com'') (users sample_db) = Some john \<and>
   check_password_hash sample_env (password john) (JInt 12345678) = Inl AttributeError \<and>
   login_user_view sample_env sample_db unknown_numeric_login =
     (Inr invalid_credentials, sample_db) \<and>
   login_user_view sample_env sample_db known_numeric_login = (Inr login_failed, sample_db)"
proof -
  have a: "''nobody@example.com'' \<notin> email ` set (users sample_db)"
    by (simp add: sample_db_def john_def jane_def bob_def)
  have f: "find (\<lambda>u. email u = ''john@example.com'') (users sample_db) = Some john"
    by (simp add: sample_db_def john_def)
  have r: "check_password_hash sample_env (password john) (JInt 12345678) = Inl AttributeError"
    by (simp add: sample_env_def sample_check_def)
  have d1: "py_get unknown_numeric_login ''email'' = Inr (JStr ''nobody@example.com'')"
    "py_get unknown_numeric_login ''password'' = Inr (JInt 12345678)"
    "truthy (JStr ''nobody@example.com'')" "truthy (JInt 12345678)"
    by (simp_all add: unknown_numeric_login_def dict_get_def)
  have d2: "py_get known_numeric_login ''email'' = Inr (JStr ''john@example.com'')"
    "py_get known_numeric_login ''password'' = Inr (JInt 12345678)"
    "truthy (JStr ''john@example.com'')" "truthy (JInt 12345678)"
    by (simp_all add: known_numeric_login_def dict_get_def)
  show ?thesis
    using login_reveals_known_email [OF a f r d1 d2] a f r by simp
qed

section \<open>Properties of the authentication middleware\<close>

text \<open>A header that starts with \<open>Bearer \<close> holds a space, so splitting it at spaces gives
  at least two pieces: the \<open>IndexError\<close> the first \<open>try\<close> block catches is never raised, and
  no request is answered with \<open>Malformed Authorization header\<close>.\<close>

lemma length_split_on: "length (split_on c s) = Suc (length (filter (\<lambda>x. x = c) s))"
  by (induction s) (auto split: list.splits)

lemma bearer_token_no_error: "bearer_token hdr \<noteq> Inl e"
proof (cases hdr)
  case None
  then show ?thesis by (simp add: bearer_token_def)
next
  case (Some h)
  show ?thesis
  proof (cases "startswith h ''Bearer ''")
    case False
    with Some show ?thesis by (simp add: bearer_token_def)
  next
    case True
    then have "take (length ''Bearer '') h = ''Bearer ''"
      by (simp only: startswith_def)
    then have "set ''Bearer '' \<subseteq> set h"
      by (metis set_take_subset)
    then have "CHR '' '' \<in> set h"
      by simp
    then have "filter (\<lambda>x. x = CHR '' '') h \<noteq> []"
      by (simp add: filter_empty_conv)
    then have "1 < length (split_on CHR '' '' h)"
      by (simp add: length_split_on)
    with Some True show ?thesis
      by (simp add: bearer_token_def py_index_def)
  qed
qed

lemma token_required_never_malformed: "token_required ev now hdr \<noteq> Inl malformed_header"
proof -
  have "current_user_of r \<noteq> Inl malformed_header" for r
    by (simp add: current_user_of_def malformed_header_def token_expired_def token_invalid_def
        token_failed_def split: jwt_result.splits sum.splits)
  moreover have "token_missing \<noteq> malformed_header"
    by (simp add: token_missing_def malformed_header_def)
  ultimately show ?thesis
    using bearer_token_no_error [of hdr]
    by (auto simp: token_required_def split: sum.splits option.splits)
qed

text \<open>
  Claim C3, on the code. A header that is only the prefix \<open>Bearer \<close>, and a header with
  another scheme, are answered exactly as a request without the header is: 401 with
  \<open>Authentication Token is missing!\<close>, which is not the malformed-header response.
\<close>

theorem malformed_header_reported_as_missing:
  "token_required ev now (Some ''Bearer '') = Inl token_missing \<and>
   token_required ev now (Some ''Basic abc'') = Inl token_missing \<and>
   token_required ev now None = Inl token_missing \<and>
   token_missing \<noteq> malformed_header"
  by (simp add: token_required_def bearer_token_def startswith_def py_index_def
      token_missing_def malformed_header_def)

text \<open>
  Claim C10. A token that the library decodes under the configured key, and whose payload
  lacks \<open>id\<close> or \<open>email\<close>, is answered 401 with \<open>Token processing failed\<close>, and a protected
  view such as \<open>get_user\<close> returns that answer without touching the store. Whenever
  \<open>token_required\<close> lets a request through, the \<open>current_user\<close> it passes on has exactly the
  entries \<open>id\<close> and \<open>email\<close>.
\<close>

theorem token_without_identity_rejected:
  "(bearer_token hdr = Inr (Some token) \<and> token \<noteq> [] \<and>
    jwt_decode ev token (JWT_SECRET_KEY ev) [''HS256''] now = Decoded data \<and>
    (map_of data ''id'' = None \<or> map_of data ''email'' = None) \<longrightarrow>
      token_required ev now hdr = Inl token_failed \<and> snd token_failed = 401 \<and>
      get_user_view ev st now hdr uid = (Inr token_failed, st)) \<and>
   (token_required ev now hdr = Inr current_user \<longrightarrow>
      (\<exists>i m. current_user = [(''id'', i), (''email'', m)]))"
proof (intro conjI impI)
  assume a: "bearer_token hdr = Inr (Some token) \<and> token \<noteq> [] \<and>
    jwt_decode ev token (JWT_SECRET_KEY ev) [''HS256''] now = Decoded data \<and>
    (map_of data ''id'' = None \<or> map_of data ''email'' = None)"
  then have "current_user_of (Decoded data) = Inl token_failed"
    by (auto simp: current_user_of_def split: option.splits)
  with a show r: "token_required ev now hdr = Inl token_failed"
    by (simp add: token_required_def)
  show "snd token_failed = 401"
    by (simp add: token_failed_def)
  from r show "get_user_view ev st now hdr uid = (Inr token_failed, st)"
    by (simp add: get_user_view_def)
next
  assume "token_required ev now hdr = Inr current_user"
  then show "\<exists>i m. current_user = [(''id'', i), (''email'', m)]"
    by (auto simp: token_required_def current_user_of_def
        split: sum.splits option.splits if_splits jwt_result.splits)
qed

theorem token_without_identity_rejected_witness:
  "token_required sample_env 0 (Some ''Bearer no-id-token'') = Inl token_failed \<and>
   token_required sample_env 0 (Some ''Bearer john-token'') =
     Inr [(''id'', JInt 1), (''email'', JStr ''john@example.com'')]"
proof -
  have b: "bearer_token (Some ''Bearer no-id-token'') = Inr (Some ''no-id-token'')"
    by (simp add: bearer_token_def startswith_def py_index_def)
  have d: "jwt_decode sample_env ''no-id-token'' (JWT_SECRET_KEY sample_env) [''HS256''] 0 =
      Decoded [(''email'', JStr ''john@example.com'')]"
    by (simp add: sample_env_def sample_decode_def)
  have 1: "token_required sample_env 0 (Some ''Bearer no-id-token'') = Inl token_failed"
    using token_without_identity_rejected
      [of "Some ''Bearer no-id-token''" "''no-id-token''" sample_env 0
          "[(''email'', JStr ''john@example.com'')]" sample_db 1 "[]"] b d
    by simp
  have 2: "token_required sample_env 0 (Some ''Bearer john-token'') =
     Inr [(''id'', JInt 1), (''email'', JStr ''john@example.com'')]"
    by (simp add: token_required_def bearer_token_def startswith_def py_index_def
        sample_env_def sample_decode_def current_user_of_def token_payload_def john_def)
  from 1 2 show ?thesis by simp
qed


section \<open>Properties of the routes\<close>

text \<open>A path \<open>/api/user/<segment>\<close> whose segment holds a character that is not an ASCII
  digit matches no rule, whatever the method: the request is answered 404 by the
  not-found handler, whatever the views would do, and the store is as before. (Strings
  hold code points below 256 here; see the converter.)\<close>

lemma non_numeric_segment_not_routed:
  assumes "\<not> list_all (\<lambda>c. c \<in> set digits) seg" and "CHR ''/'' \<notin> set seg"
  shows "route m (''/api/user/'' @ seg) = NotFound \<and>
         dispatch_request ev st views options (route m (''/api/user/'' @ seg)) =
           (not_found (http_error_str ev 404), st)"
proof -
  from assms(1) have "int_converter seg = None"
    by (simp add: int_converter_def)
  then have "match_rule (''/api/user/'' @ seg) = None"
    by (simp add: match_rule_def startswith_def)
  then have r: "route m (''/api/user/'' @ seg) = NotFound"
    by (simp add: route_def)
  then show ?thesis
    by (simp add: dispatch_request_def)
qed

text \<open>
  Claim C4, on the code. The identifier \<open>abc\<close> finds no rule under any of the three methods
  of the identifier routes. The request is answered by the not-found handler with status
  404, whatever the views would do and with the store as before: no view runs, and the
  answer 400 that each of the three views holds ready for an identifier that is not an
  integer is never given.
\<close>

theorem non_numeric_id_answered_404:
  "route ''GET'' ''/api/user/abc'' = NotFound \<and>
   route ''PUT'' ''/api/user/abc'' = NotFound \<and>
   route ''DELETE'' ''/api/user/abc'' = NotFound \<and>
   dispatch_request ev st views options (route ''GET'' ''/api/user/abc'') =
     (not_found (http_error_str ev 404), st) \<and>
   snd (not_found (http_error_str ev 404)) = 404"
  by (simp add: route_def match_rule_def startswith_def int_converter_def digits_def
      dispatch_request_def not_found_def)

section \<open>Properties of the search\<close>

text \<open>\<open>str.lower()\<close> changes a character only into a lower-case letter, so it leaves a
  text free of the two wildcards free of them; on ASCII it agrees with SQLite's \<open>LOWER\<close>.\<close>

lemma py_lower_char_changed:
  "py_lower_char c \<noteq> c \<Longrightarrow> 97 \<le> (of_char (py_lower_char c) :: nat)"
  by (auto simp: py_lower_char_def Let_def split: if_splits)

lemma py_lower_char_low:
  assumes "py_lower_char c = d" and "(of_char d :: nat) < 97"
  shows "c = d"
proof (rule ccontr)
  assume "c \<noteq> d"
  with assms(1) have "py_lower_char c \<noteq> c" by simp
  from py_lower_char_changed [OF this] assms show False by simp
qed

lemma py_lower_keeps_absent:
  assumes "d \<notin> set t" and "(of_char d :: nat) < 97"
  shows "d \<notin> set (py_lower t)"
proof
  assume "d \<in> set (py_lower t)"
  then have "d \<in> py_lower_char ` set t"
    by (simp only: py_lower_def set_map)
  then obtain x where x: "x \<in> set t" and "d = py_lower_char x"
    by (rule imageE)
  then have "py_lower_char x = d" by simp
  then have "x = d" using assms(2) by (rule py_lower_char_low)
  with x assms(1) show False by simp
qed

lemma ascii_uppercase_enum: "map char_of [65..<91::nat] = ascii_uppercase"
  by code_simp

lemma py_lower_on_capitals: "list_all (\<lambda>c. py_lower_char c = sql_lower_char c) ascii_uppercase"
  by code_simp

lemma ascii_capital_listed:
  assumes "65 \<le> (of_char c :: nat)" "(of_char c :: nat) \<le> 90"
  shows "c \<in> set ascii_uppercase"
proof -
  from assms have "(of_char c :: nat) \<in> {65..<91}" by auto
  then have "(of_char c :: nat) \<in> set [65..<91]"
    by (simp only: set_upt)
  then have "char_of (of_char c :: nat) \<in> char_of ` set [65..<91::nat]"
    by (rule imageI)
  then have "char_of (of_char c :: nat) \<in> set (map char_of [65..<91::nat])"
    by (simp only: set_map)
  then show ?thesis
    by (simp only: ascii_uppercase_enum char_of_char)
qed

lemma py_lower_char_ascii:
  assumes "(of_char c :: nat) < 128"
  shows "py_lower_char c = sql_lower_char c"
proof (cases "c \<in> set ascii_uppercase")
  case True
  with py_lower_on_capitals show ?thesis
    by (simp add: list_all_iff)
next
  case False
  then have "map_of (zip ascii_uppercase ascii_lowercase) c = None"
    by (simp add: map_of_eq_None_iff ascii_uppercase_def ascii_lowercase_def)
  then have "sql_lower_char c = c"
    by (simp add: sql_lower_char_def)
  moreover from False ascii_capital_listed [of c]
  have "\<not> (65 \<le> (of_char c :: nat) \<and> (of_char c :: nat) \<le> 90)" by blast
  with assms have "py_lower_char c = c"
    by (auto simp: py_lower_char_def Let_def)
  ultimately show ?thesis by simp
qed

lemma list_ex_upto: "list_ex P [0..<Suc n] \<longleftrightarrow> (\<exists>k\<le>n. P k)"
proof -
  have "set [0..<Suc n] = {k. k \<le> n}"
    by (auto simp del: upt_Suc)
  then show ?thesis
    by (simp only: list_ex_iff) blast
qed

lemma is_substring_iff: "is_substring t s \<longleftrightarrow> (\<exists>pre suf. s = pre @ t @ suf)"
proof
  assume "is_substring t s"
  then obtain n where "take (length t) (drop n s) = t"
    unfolding is_substring_def list_ex_upto by blast
  then have "s = take n s @ t @ drop (length t) (drop n s)"
    by (metis append_take_drop_id)
  then show "\<exists>pre suf. s = pre @ t @ suf" by blast
next
  assume "\<exists>pre suf. s = pre @ t @ suf"
  then obtain pre suf where s: "s = pre @ t @ suf" by blast
  then have "length pre \<le> length s" "take (length t) (drop (length pre) s) = t"
    by simp_all
  then show "is_substring t s"
    unfolding is_substring_def list_ex_upto by blast
qed

lemma sql_like_prefix:
  "CHR ''%'' \<notin> set p \<Longrightarrow> CHR ''_'' \<notin> set p \<Longrightarrow>
   sql_like (p @ ''%'') s \<longleftrightarrow> sql_lower (take (length p) s) = sql_lower p \<and> length p \<le> length s"
proof (induction p arbitrary: s)
  case Nil
  have "\<exists>k\<le>length s. drop k s = []" by auto
  then show ?case by (simp add: list_ex_upto sql_lower_def del: upt_Suc)
next
  case (Cons c p)
  then show ?case
    by (cases s) (auto simp: sql_lower_def simp del: upt_Suc)
qed

lemma sql_like_infix:
  assumes "CHR ''%'' \<notin> set p" "CHR ''_'' \<notin> set p"
  shows "sql_like (''%'' @ p @ ''%'') s \<longleftrightarrow> is_substring (sql_lower p) (sql_lower s)"
proof -
  have "sql_like (''%'' @ p @ ''%'') s \<longleftrightarrow> (\<exists>k\<le>length s. sql_like (p @ ''%'') (drop k s))"
    by (simp add: list_ex_upto del: upt_Suc)
  also have "\<dots> \<longleftrightarrow> (\<exists>k\<le>length s. sql_lower (take (length p) (drop k s)) = sql_lower p \<and>
      length p \<le> length (drop k s))"
    by (simp only: sql_like_prefix [OF assms])
  also have "\<dots> \<longleftrightarrow> (\<exists>k\<le>length s. take (length p) (drop k (sql_lower s)) = sql_lower p)"
  proof -
    have "sql_lower (take (length p) (drop k s)) = sql_lower p \<and> length p \<le> length (drop k s)
      \<longleftrightarrow> take (length p) (drop k (sql_lower s)) = sql_lower p" for k
    proof
      assume "sql_lower (take (length p) (drop k s)) = sql_lower p \<and> length p \<le> length (drop k s)"
      then show "take (length p) (drop k (sql_lower s)) = sql_lower p"
        by (simp add: sql_lower_def take_map drop_map)
    next
      assume a: "take (length p) (drop k (sql_lower s)) = sql_lower p"
      then have "length (take (length p) (drop k (sql_lower s))) = length (sql_lower p)"
        by simp
      then have "length p \<le> length (drop k s)"
        by (simp add: sql_lower_def)
      with a show "sql_lower (take (length p) (drop k s)) = sql_lower p \<and> length p \<le> length (drop k s)"
        by (simp add: sql_lower_def take_map drop_map)
    qed
    then show ?thesis by simp
  qed
  also have "\<dots> \<longleftrightarrow> is_substring (sql_lower p) (sql_lower s)"
    by (simp add: is_substring_def list_ex_upto sql_lower_def del: upt_Suc)
  finally show ?thesis .
qed

lemma sql_lower_char_idem: "sql_lower_char (sql_lower_char c) = sql_lower_char c"
  by (auto simp: sql_lower_char_def ascii_uppercase_def ascii_lowercase_def split: option.splits if_splits)

lemma sql_lower_idem: "sql_lower (sql_lower s) = sql_lower s"
  by (simp add: sql_lower_def sql_lower_char_idem)



text \<open>A text without \<open>%\<close> and \<open>_\<close> is searched for as a substring, with SQLite's ASCII
  case folding on both sides.\<close>

lemma search_without_wildcards:
  assumes "CHR ''%'' \<notin> set t" "CHR ''_'' \<notin> set t"
  shows "search_users_by_name st t =
           (Inr (filter (\<lambda>u. is_substring (sql_lower (py_lower t)) (sql_lower (name u))) (users st)), st)"
proof -
  have "CHR ''%'' \<notin> set (py_lower t)" "CHR ''_'' \<notin> set (py_lower t)"
    using assms by (simp_all add: py_lower_keeps_absent)
  then have "sql_like (''%'' @ py_lower t @ ''%'') s \<longleftrightarrow>
      is_substring (sql_lower (py_lower t)) (sql_lower s)" for s
    by (rule sql_like_infix)
  then show ?thesis
    by (simp add: search_users_by_name_def execute_query_def sql_lower_idem del: sql_like.simps)
qed

lemma py_lower_ascii: "is_ascii s \<Longrightarrow> py_lower s = sql_lower s"
  using py_lower_char_ascii by (simp add: is_ascii_def py_lower_def sql_lower_def list_all_iff)

text \<open>When the text and the stored names are ASCII, that is the substring search of the
  specification.\<close>

lemma search_ascii_substring:
  assumes "CHR ''%'' \<notin> set t" "CHR ''_'' \<notin> set t" "is_ascii t"
    and "list_all (\<lambda>u. is_ascii (name u)) (users st)"
  shows "search_users_by_name st t =
           (Inr (filter (\<lambda>u. contains_ignoring_case (name u) t) (users st)), st)"
proof -
  have "filter (\<lambda>u. is_substring (sql_lower (py_lower t)) (sql_lower (name u))) (users st) =
        filter (\<lambda>u. contains_ignoring_case (name u) t) (users st)"
    using assms(3,4)
    by (intro filter_cong refl)
      (simp add: contains_ignoring_case_def py_lower_ascii sql_lower_idem list_all_iff)
  then show ?thesis
    using search_without_wildcards [OF assms(1,2), of st] by simp
qed

lemma search_ascii_substring_example:
  "CHR ''%'' \<notin> set ''oh'' \<and> CHR ''_'' \<notin> set ''oh'' \<and> is_ascii ''oh'' \<and>
   list_all (\<lambda>u. is_ascii (name u)) (users sample_db) \<and>
   search_users_by_name sample_db ''oh'' = (Inr [john, bob], sample_db)"
proof -
  have a: "CHR ''%'' \<notin> set ''oh''" "CHR ''_'' \<notin> set ''oh''"
    by simp_all
  have b: "is_ascii ''oh''"
    by (simp add: is_ascii_def)
  have c: "list_all (\<lambda>u. is_ascii (name u)) (users sample_db)"
    by (simp add: sample_db_def john_def jane_def bob_def is_ascii_def)
  have d: "filter (\<lambda>u. contains_ignoring_case (name u) ''oh'') (users sample_db) = [john, bob]"
    by code_simp
  show ?thesis
    using search_ascii_substring [OF a b c] a b c d by simp
qed


text \<open>
  Claim C9, on the code. Over the three sample users the text \<open>_\<close> finds all three, though
  no name holds an underscore: the text is pasted into the \<open>LIKE\<close> pattern, where \<open>_\<close> stands
  for any character. The texts of the specification's example behave as it says: \<open>oh\<close>
  finds John Doe and Bob Johnson, \<open>xyz\<close> finds nobody.
\<close>

theorem search_treats_underscore_as_wildcard:
  "search_users_by_name sample_db ''_'' = (Inr [john, jane, bob], sample_db) \<and>
   \<not> contains_ignoring_case (name john) ''_'' \<and>
   \<not> contains_ignoring_case (name jane) ''_'' \<and>
   \<not> contains_ignoring_case (name bob) ''_'' \<and>
   search_users_by_name sample_db ''oh'' = (Inr [john, bob], sample_db) \<and>
   search_users_by_name sample_db ''xyz'' = (Inr [], sample_db)"
  by code_simp


end
